theory Spec2Isabelle
  imports Complex_Main
begin

section \<open>The business-plan calculator\<close>

text \<open>
  A shallow embedding of the two computation functions of
  \<^verbatim>\<open>business-calculator.py\<close>: \<^verbatim>\<open>calculate_monthly_metrics\<close> and
  \<^verbatim>\<open>calculate_annual_projection\<close>.

  Numbers. The Python values are \<^verbatim>\<open>int\<close> and \<^verbatim>\<open>float\<close>; both are embedded in the
  type \<^typ>\<open>real\<close>, so every arithmetic operation is exact. This is the reading the
  specification takes ("total functions over the real numbers"); rounding of IEEE doubles
  is outside the model.

  Errors. Python's true division \<^verbatim>\<open>a / b\<close> raises \<^verbatim>\<open>ZeroDivisionError\<close> when
  \<^verbatim>\<open>b\<close> is zero and a subscript \<^verbatim>\<open>d[k]\<close> raises \<^verbatim>\<open>KeyError\<close> when the key is
  missing. Both are values of the result type: \<open>Inl\<close> carries the error.

  Dictionaries. The returned dictionaries are maps from the key to the value.
\<close>

subsection \<open>Python primitives\<close>

datatype py_error = ZeroDivisionError | KeyError

type_synonym 'a result = "py_error + 'a"

type_synonym metrics = "string \<rightharpoonup> real"

text \<open>Sequencing of two computations: the first error raised ends the call.\<close>

fun and_then :: "'a result \<Rightarrow> ('a \<Rightarrow> 'b result) \<Rightarrow> 'b result" where
  "and_then (Inl e) f = Inl e"
| "and_then (Inr v) f = f v"

text \<open>\<^verbatim>\<open>a / b\<close>\<close>

definition py_div :: "real \<Rightarrow> real \<Rightarrow> real result" where
  "py_div a b = (if b = 0 then Inl ZeroDivisionError else Inr (a / b))"

text \<open>\<^verbatim>\<open>d[k]\<close>\<close>

definition getitem :: "metrics \<Rightarrow> string \<Rightarrow> real result" where
  "getitem d k = (case d k of None \<Rightarrow> Inl KeyError | Some v \<Rightarrow> Inr v)"

text \<open>\<^verbatim>\<open>sum(xs)\<close>: starts from 0 and adds the elements from left to right.\<close>

definition py_sum :: "real list \<Rightarrow> real" where
  "py_sum xs = foldl (+) 0 xs"

text \<open>\<^verbatim>\<open>max(a, b)\<close>: the second argument is returned only when it is strictly larger.\<close>

definition py_max :: "real \<Rightarrow> real \<Rightarrow> real" where
  "py_max a b = (if b > a then b else a)"

subsection \<open>Monthly metrics\<close>

text \<open>
  \<^verbatim>\<open>calculate_monthly_metrics\<close>, lines 5 to 54. The conditional expressions
  \<^verbatim>\<open>x if c else 0\<close> evaluate the division only when the condition holds.
  The parameters \<open>initial_capital\<close> and \<open>initial_stock\<close> are accepted as in the source.
\<close>

definition calculate_monthly_metrics ::
  "real \<Rightarrow> real \<Rightarrow> real \<Rightarrow> real \<Rightarrow> real \<Rightarrow> real \<Rightarrow> real \<Rightarrow> real \<Rightarrow> metrics result" where
  "calculate_monthly_metrics monthly_traffic conversion_rate average_basket initial_capital
       initial_stock purchase_price_ratio shipping_cost marketing_budget =
     and_then (py_div conversion_rate 100) (\<lambda>cr.
     let orders = monthly_traffic * cr;
         revenue = orders * average_basket
     in and_then (py_div purchase_price_ratio 100) (\<lambda>ppr.
     let purchase_cost = revenue * ppr;
         shipping_total = orders * shipping_cost;
         shopify_fees = (revenue * 0.029) + (orders * 0.30);
         fixed_costs = [(''Shopify'', 32), (''SEO'', 200), (''Domain'', 1.25),
                        (''Marketing'', marketing_budget)];
         total_fixed_costs = py_sum (map snd fixed_costs);
         gross_margin = revenue - purchase_cost - shipping_total - shopify_fees;
         net_margin = gross_margin - total_fixed_costs
     in and_then (if revenue > 0
                  then and_then (py_div gross_margin revenue) (\<lambda>q. Inr (q * 100))
                  else Inr 0) (\<lambda>gross_margin_rate.
        and_then (if revenue > 0
                  then and_then (py_div marketing_budget revenue) (\<lambda>q. Inr (q * 100))
                  else Inr 0) (\<lambda>marketing_ratio.
        and_then (if gross_margin_rate > 0
                  then and_then (py_div gross_margin_rate 100) (\<lambda>d. py_div total_fixed_costs d)
                  else Inr 0) (\<lambda>break_even.
        Inr (map_of
          [(''revenue'', revenue),
           (''orders'', orders),
           (''purchase_cost'', purchase_cost),
           (''shipping_total'', shipping_total),
           (''shopify_fees'', shopify_fees),
           (''fixed_costs'', total_fixed_costs),
           (''gross_margin'', gross_margin),
           (''net_margin'', net_margin),
           (''gross_margin_rate'', gross_margin_rate),
           (''marketing_ratio'', marketing_ratio),
           (''break_even'', break_even)]))))))"

subsection \<open>Annual projection\<close>

text \<open>
  \<^verbatim>\<open>calculate_annual_projection\<close>, lines 56 to 60: the comprehension multiplies the
  value of every key by 12, then two keys are stored, each read of \<^verbatim>\<open>annual[...]\<close>
  being a subscript that can raise.
\<close>

definition calculate_annual_projection :: "metrics \<Rightarrow> metrics result" where
  "calculate_annual_projection monthly_metrics =
     (let annual = (\<lambda>k. map_option (\<lambda>v. v * 12) (monthly_metrics k))
      in and_then (getitem annual ''net_margin'') (\<lambda>nm.
         let annual1 = annual(''taxes'' \<mapsto> py_max 0 (nm * 0.20))
         in and_then (getitem annual1 ''net_margin'') (\<lambda>nm1.
            and_then (getitem annual1 ''taxes'') (\<lambda>taxes.
            Inr (annual1(''net_profit'' \<mapsto> nm1 - taxes))))))"

text \<open>The keys of a MonthlyMetrics dictionary (the eleven keys of the returned literal).\<close>

definition monthly_keys :: "string list" where
  "monthly_keys = [''revenue'', ''orders'', ''purchase_cost'', ''shipping_total'',
     ''shopify_fees'', ''fixed_costs'', ''gross_margin'', ''net_margin'',
     ''gross_margin_rate'', ''marketing_ratio'', ''break_even'']"

definition is_monthly_metrics :: "metrics \<Rightarrow> bool" where
  "is_monthly_metrics m = (dom m = set monthly_keys)"

section \<open>Properties\<close>

subsection \<open>Closed form of the monthly result\<close>

lemma py_div_100: "py_div x 100 = Inr (x / 100)"
  by (simp add: py_div_def)

lemma py_sum_fixed: "py_sum [32, 200, 1.25, mb] = 32 + 200 + 1.25 + mb"
  by (simp add: py_sum_def)

text \<open>A division behind its guard never raises.\<close>

lemma guarded_ratio:
  "(if 0 < b then and_then (py_div a b) (\<lambda>q. Inr (q * 100)) else Inr 0)
   = Inr (if 0 < b then a / b * 100 else 0)"
  by (simp add: py_div_def)

lemma guarded_break_even:
  "(if 0 < g then py_div f (g / 100) else Inr 0)
   = Inr (if 0 < g then f / (g / 100) else 0)"
  by (simp add: py_div_def)

text \<open>
  No call raises: the result is always the dictionary of the eleven values, each given by
  its formula.
\<close>

lemma calculate_monthly_metrics_closed:
  "calculate_monthly_metrics t c a ic is p s mb =
    (let orders = t * (c / 100);
         revenue = orders * a;
         purchase_cost = revenue * (p / 100);
         shipping_total = orders * s;
         shopify_fees = revenue * 0.029 + orders * 0.30;
         total_fixed_costs = 32 + 200 + 1.25 + mb;
         gross_margin = revenue - purchase_cost - shipping_total - shopify_fees;
         net_margin = gross_margin - total_fixed_costs;
         gross_margin_rate = (if revenue > 0 then gross_margin / revenue * 100 else 0);
         marketing_ratio = (if revenue > 0 then mb / revenue * 100 else 0);
         break_even = (if gross_margin_rate > 0
                       then total_fixed_costs / (gross_margin_rate / 100) else 0)
     in Inr (map_of
          [(''revenue'', revenue),
           (''orders'', orders),
           (''purchase_cost'', purchase_cost),
           (''shipping_total'', shipping_total),
           (''shopify_fees'', shopify_fees),
           (''fixed_costs'', total_fixed_costs),
           (''gross_margin'', gross_margin),
           (''net_margin'', net_margin),
           (''gross_margin_rate'', gross_margin_rate),
           (''marketing_ratio'', marketing_ratio),
           (''break_even'', break_even)]))"
  unfolding calculate_monthly_metrics_def Let_def py_div_100 and_then.simps guarded_ratio
    guarded_break_even list.map snd_conv py_sum_fixed
  by (rule refl)

subsection \<open>Closed form of the annual result\<close>

text \<open>
  The call returns exactly when the key \<open>net_margin\<close> is present; the two subscripts
  that follow read keys that are then present.
\<close>

lemma calculate_annual_projection_closed:
  assumes "m ''net_margin'' = Some nm"
  shows "calculate_annual_projection m =
     Inr ((\<lambda>k. map_option (\<lambda>v. v * 12) (m k))
            (''taxes'' \<mapsto> py_max 0 (nm * 12 * 0.20),
             ''net_profit'' \<mapsto> nm * 12 - py_max 0 (nm * 12 * 0.20)))"
  using assms by (simp add: calculate_annual_projection_def Let_def getitem_def)

lemma calculate_annual_projection_KeyError:
  assumes "m ''net_margin'' = None"
  shows "calculate_annual_projection m = Inl KeyError"
  using assms by (simp add: calculate_annual_projection_def Let_def getitem_def)

lemma monthly_keys_not_new:
  "k \<in> set monthly_keys \<Longrightarrow> k \<noteq> ''taxes'' \<and> k \<noteq> ''net_profit''"
  by (auto simp: monthly_keys_def)

lemma scaled_lookup:
  assumes "\<exists>v. m k = Some v \<and> a k = Some (12 * v)" and "m k = Some x"
  shows "a k = Some (12 * (x::real))"
  using assms by auto

text \<open>Every call returns, and what it returns is a MonthlyMetrics dictionary.\<close>

lemma calculate_monthly_metrics_returns:
  "\<exists>m. calculate_monthly_metrics t c a ic is p s mb = Inr m"
  unfolding calculate_monthly_metrics_closed Let_def by (rule exI) (rule refl)

lemma calculate_monthly_metrics_is_monthly:
  assumes "calculate_monthly_metrics t c a ic is p s mb = Inr m"
  shows "is_monthly_metrics m"
proof -
  from assms have "is_monthly_metrics (projr (calculate_monthly_metrics t c a ic is p s mb))"
    unfolding calculate_monthly_metrics_closed Let_def sum.sel
      is_monthly_metrics_def monthly_keys_def dom_map_of_conv_image_fst
    by (simp only: list.simps image_insert image_empty fst_conv)
  with assms show ?thesis
    by simp
qed

text \<open>Reading a key of a dictionary literal.\<close>

lemma map_of_Cons_apply:
  "map_of ((k, v) # xs) k' = (if k' = k then Some v else map_of xs k')"
  by simp

lemmas dict_simps = map_of_Cons_apply list.inject char.inject simp_thms if_True if_False
  list.distinct

subsection \<open>The formulas of the monthly metrics\<close>

text \<open>
  C1. For every input tuple the call returns a dictionary in which
  orders = monthly_traffic * (conversion_rate / 100), revenue = orders * average_basket,
  purchase_cost = revenue * (purchase_price_ratio / 100),
  shipping_total = orders * shipping_cost and
  shopify_fees = revenue * 0.029 + orders * 0.30.
\<close>

theorem monthly_variable_formulas:
  "\<exists>m orders revenue.
     calculate_monthly_metrics monthly_traffic conversion_rate average_basket
       initial_capital initial_stock purchase_price_ratio shipping_cost marketing_budget = Inr m
     \<and> m ''orders'' = Some orders
     \<and> orders = monthly_traffic * (conversion_rate / 100)
     \<and> m ''revenue'' = Some revenue
     \<and> revenue = orders * average_basket
     \<and> m ''purchase_cost'' = Some (revenue * (purchase_price_ratio / 100))
     \<and> m ''shipping_total'' = Some (orders * shipping_cost)
     \<and> m ''shopify_fees'' = Some (revenue * 0.029 + orders * 0.30)"
  unfolding calculate_monthly_metrics_closed Let_def
  by (intro exI conjI) (rule refl | simp only: dict_simps)+

text \<open>
  C2. For every input, with no precondition, the returned values satisfy
  gross_margin = revenue - purchase_cost - shipping_total - shopify_fees and
  net_margin = gross_margin - fixed_costs.
\<close>

theorem monthly_margin_equations:
  "\<exists>m revenue purchase_cost shipping_total shopify_fees fixed_costs gross_margin net_margin.
     calculate_monthly_metrics monthly_traffic conversion_rate average_basket
       initial_capital initial_stock purchase_price_ratio shipping_cost marketing_budget = Inr m
     \<and> m ''revenue'' = Some revenue
     \<and> m ''purchase_cost'' = Some purchase_cost
     \<and> m ''shipping_total'' = Some shipping_total
     \<and> m ''shopify_fees'' = Some shopify_fees
     \<and> m ''fixed_costs'' = Some fixed_costs
     \<and> m ''gross_margin'' = Some gross_margin
     \<and> m ''net_margin'' = Some net_margin
     \<and> gross_margin = revenue - purchase_cost - shipping_total - shopify_fees
     \<and> net_margin = gross_margin - fixed_costs"
  unfolding calculate_monthly_metrics_closed Let_def
  by (intro exI conjI) (rule refl | simp only: dict_simps)+

text \<open>
  C3. For every input the fixed_costs value of the result is
  32 + 200 + 1.25 + marketing_budget.
\<close>

theorem monthly_fixed_costs:
  "\<exists>m.
     calculate_monthly_metrics monthly_traffic conversion_rate average_basket
       initial_capital initial_stock purchase_price_ratio shipping_cost marketing_budget = Inr m
     \<and> m ''fixed_costs'' = Some (32 + 200 + 1.25 + marketing_budget)"
  unfolding calculate_monthly_metrics_closed Let_def
  by (intro exI conjI) (rule refl | simp only: dict_simps)+

subsection \<open>Parameters that are not read\<close>

text \<open>
  C10. Two calls whose inputs differ only in initial_capital and initial_stock return the
  same result: the two parameters are never read.
\<close>

theorem monthly_ignores_capital_and_stock:
  "calculate_monthly_metrics monthly_traffic conversion_rate average_basket
       initial_capital initial_stock purchase_price_ratio shipping_cost marketing_budget
   = calculate_monthly_metrics monthly_traffic conversion_rate average_basket
       initial_capital' initial_stock' purchase_price_ratio shipping_cost marketing_budget"
  unfolding calculate_monthly_metrics_def by (rule refl)

subsection \<open>Division guards\<close>

text \<open>
  C4. The call returns for every input (no division raises): gross_margin_rate and
  marketing_ratio divide by revenue only when revenue > 0, break_even divides by
  gross_margin_rate / 100 only when gross_margin_rate > 0, and each is 0 otherwise. When
  monthly_traffic = 0 or conversion_rate = 0 the result has orders = 0, revenue = 0,
  gross_margin_rate = 0, marketing_ratio = 0 and break_even = 0.
\<close>

theorem monthly_total_and_guarded:
  "\<exists>m revenue gross_margin fixed_costs gross_margin_rate.
     calculate_monthly_metrics monthly_traffic conversion_rate average_basket
       initial_capital initial_stock purchase_price_ratio shipping_cost marketing_budget = Inr m
     \<and> m ''revenue'' = Some revenue
     \<and> m ''gross_margin'' = Some gross_margin
     \<and> m ''fixed_costs'' = Some fixed_costs
     \<and> m ''gross_margin_rate'' = Some gross_margin_rate
     \<and> gross_margin_rate = (if revenue > 0 then gross_margin / revenue * 100 else 0)
     \<and> m ''marketing_ratio'' = Some (if revenue > 0 then marketing_budget / revenue * 100 else 0)
     \<and> m ''break_even'' =
         Some (if gross_margin_rate > 0 then fixed_costs / (gross_margin_rate / 100) else 0)
     \<and> (monthly_traffic = 0 \<or> conversion_rate = 0 \<longrightarrow>
          m ''orders'' = Some 0 \<and> revenue = 0 \<and> gross_margin_rate = 0
          \<and> m ''marketing_ratio'' = Some 0 \<and> m ''break_even'' = Some 0)"
  unfolding calculate_monthly_metrics_closed Let_def
  apply (intro exI conjI)
          apply (rule refl | simp only: dict_simps)+
  apply (rule impI)
  apply (erule disjE)
   apply simp_all
  done

theorem monthly_total_and_guarded_witness:
  "\<exists>m. calculate_monthly_metrics 0 2 80 10000 3000 40 6 300 = Inr m
     \<and> m ''orders'' = Some 0 \<and> m ''revenue'' = Some 0
     \<and> m ''gross_margin_rate'' = Some 0 \<and> m ''marketing_ratio'' = Some 0
     \<and> m ''break_even'' = Some 0"
  using monthly_total_and_guarded [of 0 2 80 10000 3000 40 6 300]
  by auto

subsection \<open>Annual projection\<close>

text \<open>
  C5. For every MonthlyMetrics dictionary the projection returns a dictionary whose keys
  are the eleven monthly keys, taxes and net_profit, and the value of each monthly key,
  the ratios gross_margin_rate, marketing_ratio and break_even included, is 12 times the
  monthly value.
\<close>

theorem annual_scales_every_field:
  assumes "is_monthly_metrics m"
  shows "\<exists>a. calculate_annual_projection m = Inr a
     \<and> dom a = set monthly_keys \<union> {''taxes'', ''net_profit''}
     \<and> (\<forall>k \<in> set monthly_keys. \<exists>v. m k = Some v \<and> a k = Some (12 * v))"
proof -
  have d: "dom m = set monthly_keys"
    using assms by (simp add: is_monthly_metrics_def)
  have "''net_margin'' \<in> set monthly_keys"
    by (simp add: monthly_keys_def)
  with d obtain nm where nm: "m ''net_margin'' = Some nm"
    by blast
  let ?a = "(\<lambda>k. map_option (\<lambda>v. v * 12) (m k))
            (''taxes'' \<mapsto> py_max 0 (nm * 12 * 0.20),
             ''net_profit'' \<mapsto> nm * 12 - py_max 0 (nm * 12 * 0.20))"
  have r: "calculate_annual_projection m = Inr ?a"
    by (rule calculate_annual_projection_closed [of m nm, OF nm])
  have "dom (\<lambda>k. map_option (\<lambda>v. v * 12) (m k)) = dom m"
    by (auto simp: dom_def)
  then have da: "dom ?a = set monthly_keys \<union> {''taxes'', ''net_profit''}"
    using d by auto
  have "\<exists>v. m k = Some v \<and> ?a k = Some (12 * v)" if k: "k \<in> set monthly_keys" for k
  proof -
    from k d obtain v where v: "m k = Some v"
      by blast
    from k have "k \<noteq> ''taxes''" "k \<noteq> ''net_profit''"
      using monthly_keys_not_new by blast+
    then have "?a k = Some (12 * v)"
      using v by simp
    with v show ?thesis
      by blast
  qed
  with r da show ?thesis
    by blast
qed

text \<open>
  The dictionary below is the monthly result for the default inputs of the page
  (1000, 2.0, 80.0, 10000, 3000, 40.0, 6.0, 300.0).
\<close>

theorem annual_scales_every_field_witness:
  "is_monthly_metrics
     (map_of [(''revenue'', 1600), (''orders'', 20), (''purchase_cost'', 640),
        (''shipping_total'', 120), (''shopify_fees'', 52.4), (''fixed_costs'', 533.25),
        (''gross_margin'', 787.6), (''net_margin'', 254.35), (''gross_margin_rate'', 49.225),
        (''marketing_ratio'', 18.75), (''break_even'', 2133000 / 1969 :: real)])
   \<and> (\<exists>a. calculate_annual_projection
     (map_of [(''revenue'', 1600), (''orders'', 20), (''purchase_cost'', 640),
        (''shipping_total'', 120), (''shopify_fees'', 52.4), (''fixed_costs'', 533.25),
        (''gross_margin'', 787.6), (''net_margin'', 254.35), (''gross_margin_rate'', 49.225),
        (''marketing_ratio'', 18.75), (''break_even'', 2133000 / 1969 :: real)]) = Inr a
      \<and> a ''revenue'' = Some (12 * 1600)
      \<and> a ''gross_margin_rate'' = Some (12 * 49.225)
      \<and> a ''marketing_ratio'' = Some (12 * 18.75)
      \<and> a ''break_even'' = Some (12 * (2133000 / 1969)))"
proof -
  let ?M = "map_of [(''revenue'', 1600), (''orders'', 20), (''purchase_cost'', 640),
        (''shipping_total'', 120), (''shopify_fees'', 52.4), (''fixed_costs'', 533.25),
        (''gross_margin'', 787.6), (''net_margin'', 254.35), (''gross_margin_rate'', 49.225),
        (''marketing_ratio'', 18.75), (''break_even'', 2133000 / 1969 :: real)]"
  have h: "is_monthly_metrics ?M"
    unfolding is_monthly_metrics_def monthly_keys_def dom_map_of_conv_image_fst
    by (simp only: list.simps image_insert image_empty fst_conv)
  have k: "''revenue'' \<in> set monthly_keys" "''gross_margin_rate'' \<in> set monthly_keys"
    "''marketing_ratio'' \<in> set monthly_keys" "''break_even'' \<in> set monthly_keys"
    by (simp_all add: monthly_keys_def)
  from annual_scales_every_field [OF h] show ?thesis
  proof (elim exE conjE)
    fix a
    assume a: "calculate_annual_projection ?M = Inr a"
      and s: "\<forall>k \<in> set monthly_keys. \<exists>v. ?M k = Some v \<and> a k = Some (12 * v)"
    have "a ''revenue'' = Some (12 * 1600)"
      by (rule scaled_lookup [of ?M "''revenue''" a, OF bspec [OF s k(1)]])
        (simp only: dict_simps)
    moreover have "a ''gross_margin_rate'' = Some (12 * 49.225)"
      by (rule scaled_lookup [of ?M "''gross_margin_rate''" a, OF bspec [OF s k(2)]])
        (simp only: dict_simps)
    moreover have "a ''marketing_ratio'' = Some (12 * 18.75)"
      by (rule scaled_lookup [of ?M "''marketing_ratio''" a, OF bspec [OF s k(3)]])
        (simp only: dict_simps)
    moreover have "a ''break_even'' = Some (12 * (2133000 / 1969))"
      by (rule scaled_lookup [of ?M "''break_even''" a, OF bspec [OF s k(4)]])
        (simp only: dict_simps)
    ultimately show ?thesis
      using h a by (intro conjI exI [of _ a])
  qed
qed

text \<open>
  C6. Whenever the monthly dictionary has a net_margin, the projection returns with
  net_margin = 12 * monthly net_margin, taxes = 0 when that annual net_margin is at most 0
  and 0.20 times it otherwise, taxes never negative, and
  net_profit = annual net_margin - taxes.
\<close>

theorem annual_taxes_and_net_profit:
  assumes "m ''net_margin'' = Some nm"
  shows "\<exists>a taxes. calculate_annual_projection m = Inr a
     \<and> a ''net_margin'' = Some (12 * nm)
     \<and> a ''taxes'' = Some taxes
     \<and> taxes = (if 12 * nm \<le> 0 then 0 else 0.20 * (12 * nm))
     \<and> 0 \<le> taxes
     \<and> a ''net_profit'' = Some (12 * nm - taxes)"
proof -
  let ?taxes = "py_max 0 (nm * 12 * 0.20)"
  let ?a = "(\<lambda>k. map_option (\<lambda>v. v * 12) (m k))
            (''taxes'' \<mapsto> ?taxes, ''net_profit'' \<mapsto> nm * 12 - ?taxes)"
  have r: "calculate_annual_projection m = Inr ?a"
    by (rule calculate_annual_projection_closed [of m nm, OF assms])
  have nm: "?a ''net_margin'' = Some (12 * nm)"
    using assms by simp
  have tx: "?a ''taxes'' = Some ?taxes"
    by simp
  have v: "?taxes = (if 12 * nm \<le> 0 then 0 else 0.20 * (12 * nm))"
    by (simp add: py_max_def)
  have nonneg: "0 \<le> ?taxes"
    by (simp add: py_max_def)
  have np: "?a ''net_profit'' = Some (12 * nm - ?taxes)"
    by simp
  show ?thesis
    by (intro exI [of _ ?a] exI [of _ ?taxes] conjI) (fact r nm tx v nonneg np)+
qed

theorem annual_taxes_and_net_profit_witness:
  "(map_of [(''revenue'', 1600), (''orders'', 20), (''purchase_cost'', 640),
        (''shipping_total'', 120), (''shopify_fees'', 52.4), (''fixed_costs'', 533.25),
        (''gross_margin'', 787.6), (''net_margin'', 254.35), (''gross_margin_rate'', 49.225),
        (''marketing_ratio'', 18.75), (''break_even'', 2133000 / 1969 :: real)]) ''net_margin''
      = Some 254.35
   \<and> (\<exists>a. calculate_annual_projection
     (map_of [(''revenue'', 1600), (''orders'', 20), (''purchase_cost'', 640),
        (''shipping_total'', 120), (''shopify_fees'', 52.4), (''fixed_costs'', 533.25),
        (''gross_margin'', 787.6), (''net_margin'', 254.35), (''gross_margin_rate'', 49.225),
        (''marketing_ratio'', 18.75), (''break_even'', 2133000 / 1969 :: real)]) = Inr a
      \<and> a ''net_margin'' = Some 3052.2 \<and> a ''taxes'' = Some 610.44
      \<and> a ''net_profit'' = Some 2441.76)"
proof -
  let ?M = "map_of [(''revenue'', 1600), (''orders'', 20), (''purchase_cost'', 640),
        (''shipping_total'', 120), (''shopify_fees'', 52.4), (''fixed_costs'', 533.25),
        (''gross_margin'', 787.6), (''net_margin'', 254.35), (''gross_margin_rate'', 49.225),
        (''marketing_ratio'', 18.75), (''break_even'', 2133000 / 1969 :: real)]"
  have h: "?M ''net_margin'' = Some 254.35"
    by (simp only: dict_simps)
  from annual_taxes_and_net_profit [of ?M "254.35", OF h] show ?thesis
  proof (elim exE conjE)
    fix a :: metrics and taxes :: real
    assume a: "calculate_annual_projection ?M = Inr a"
      and nm: "a ''net_margin'' = Some (12 * 254.35)"
      and tx: "a ''taxes'' = Some taxes"
      and v: "taxes = (if 12 * 254.35 \<le> (0::real) then 0 else 0.20 * (12 * 254.35))"
      and np: "a ''net_profit'' = Some (12 * 254.35 - taxes)"
    from v have t: "taxes = 610.44"
      by simp
    have "a ''net_margin'' = Some 3052.2"
      using nm by simp
    moreover have "a ''taxes'' = Some 610.44"
      using tx t by simp
    moreover have "a ''net_profit'' = Some 2441.76"
      using np t by simp
    ultimately show ?thesis
      using h a by (intro conjI exI [of _ a])
  qed
qed

subsection \<open>The example scenario\<close>

text \<open>
  C7 as stated gives break_even as about 1083.42 for the inputs
  (1000, 2.0, 80.0, 10000, 3000, 40.0, 6.0, 300.0). The call returns
  break_even = 533.25 / (49.225 / 100) = 2133000 / 1969, about 1083.291, which is more
  than 0.12 away from 1083.42.
\<close>

theorem example_break_even_counterexample:
  "calculate_monthly_metrics 1000 2 80 10000 3000 40 6 300 =
     Inr (map_of [(''revenue'', 1600), (''orders'', 20), (''purchase_cost'', 640),
        (''shipping_total'', 120), (''shopify_fees'', 52.4), (''fixed_costs'', 533.25),
        (''gross_margin'', 787.6), (''net_margin'', 254.35), (''gross_margin_rate'', 49.225),
        (''marketing_ratio'', 18.75), (''break_even'', 2133000 / 1969 :: real)])
   \<and> \<not> \<bar>2133000 / 1969 - 1083.42\<bar> \<le> (0.12::real)"
  unfolding calculate_monthly_metrics_closed Let_def
  by simp

text \<open>
  C7, amended. For the inputs (1000, 2.0, 80.0, 10000, 3000, 40.0, 6.0, 300.0) the call
  returns orders = 20, revenue = 1600, purchase_cost = 640, shipping_total = 120,
  shopify_fees = 52.4, fixed_costs = 533.25, gross_margin = 787.6, net_margin = 254.35,
  gross_margin_rate = 49.225, marketing_ratio = 18.75 and break_even within 0.005 of
  1083.29, and the projection of that result has net_margin = 3052.2, taxes = 610.44 and
  net_profit = 2441.76.
\<close>

theorem example_scenario:
  "\<exists>m break_even a.
     calculate_monthly_metrics 1000 2 80 10000 3000 40 6 300 = Inr m
     \<and> m ''orders'' = Some 20 \<and> m ''revenue'' = Some 1600
     \<and> m ''purchase_cost'' = Some 640 \<and> m ''shipping_total'' = Some 120
     \<and> m ''shopify_fees'' = Some 52.4 \<and> m ''fixed_costs'' = Some 533.25
     \<and> m ''gross_margin'' = Some 787.6 \<and> m ''net_margin'' = Some 254.35
     \<and> m ''gross_margin_rate'' = Some 49.225 \<and> m ''marketing_ratio'' = Some 18.75
     \<and> m ''break_even'' = Some break_even \<and> \<bar>break_even - 1083.29\<bar> \<le> 0.005
     \<and> calculate_annual_projection m = Inr a
     \<and> a ''net_margin'' = Some 3052.2 \<and> a ''taxes'' = Some 610.44
     \<and> a ''net_profit'' = Some 2441.76"
proof -
  let ?M = "map_of [(''revenue'', 1600), (''orders'', 20), (''purchase_cost'', 640),
        (''shipping_total'', 120), (''shopify_fees'', 52.4), (''fixed_costs'', 533.25),
        (''gross_margin'', 787.6), (''net_margin'', 254.35), (''gross_margin_rate'', 49.225),
        (''marketing_ratio'', 18.75), (''break_even'', 2133000 / 1969 :: real)]"
  let ?A = "(\<lambda>k. map_option (\<lambda>v. v * 12) (?M k))
            (''taxes'' \<mapsto> py_max 0 (254.35 * 12 * 0.20),
             ''net_profit'' \<mapsto> 254.35 * 12 - py_max 0 (254.35 * 12 * 0.20))"
  have m: "calculate_monthly_metrics 1000 2 80 10000 3000 40 6 300 = Inr ?M"
    unfolding calculate_monthly_metrics_closed Let_def by simp
  have fields: "?M ''orders'' = Some 20" "?M ''revenue'' = Some 1600"
    "?M ''purchase_cost'' = Some 640" "?M ''shipping_total'' = Some 120"
    "?M ''shopify_fees'' = Some 52.4" "?M ''fixed_costs'' = Some 533.25"
    "?M ''gross_margin'' = Some 787.6" "?M ''net_margin'' = Some 254.35"
    "?M ''gross_margin_rate'' = Some 49.225" "?M ''marketing_ratio'' = Some 18.75"
    "?M ''break_even'' = Some (2133000 / 1969)"
    by (simp_all only: dict_simps)
  have be: "\<bar>2133000 / 1969 - 1083.29\<bar> \<le> (0.005 :: real)"
    by simp
  have a: "calculate_annual_projection ?M = Inr ?A"
    by (rule calculate_annual_projection_closed [of ?M "254.35", OF fields(8)])
  have annual: "?A ''net_margin'' = Some 3052.2" "?A ''taxes'' = Some 610.44"
    "?A ''net_profit'' = Some 2441.76"
    by (simp_all add: py_max_def)
  show ?thesis
    by (intro exI [of _ ?M] exI [of _ "2133000 / 1969"] exI [of _ ?A] conjI)
      (fact m fields be a annual)+
qed

subsection \<open>Signs of the monthly values\<close>

text \<open>
  C8. When the eight inputs are non-negative, the returned revenue, purchase_cost,
  shipping_total, shopify_fees, fixed_costs and break_even are non-negative. The two
  margins can be negative: with a purchase price ratio of 100 and the other default
  inputs both gross_margin and net_margin are below 0.
\<close>

theorem monthly_currency_nonnegative:
  assumes "0 \<le> monthly_traffic" "0 \<le> conversion_rate" "0 \<le> average_basket"
    "0 \<le> initial_capital" "0 \<le> initial_stock" "0 \<le> purchase_price_ratio"
    "0 \<le> shipping_cost" "0 \<le> marketing_budget"
  shows "(\<exists>m revenue purchase_cost shipping_total shopify_fees fixed_costs break_even.
       calculate_monthly_metrics monthly_traffic conversion_rate average_basket
         initial_capital initial_stock purchase_price_ratio shipping_cost marketing_budget = Inr m
       \<and> m ''revenue'' = Some revenue \<and> 0 \<le> revenue
       \<and> m ''purchase_cost'' = Some purchase_cost \<and> 0 \<le> purchase_cost
       \<and> m ''shipping_total'' = Some shipping_total \<and> 0 \<le> shipping_total
       \<and> m ''shopify_fees'' = Some shopify_fees \<and> 0 \<le> shopify_fees
       \<and> m ''fixed_costs'' = Some fixed_costs \<and> 0 \<le> fixed_costs
       \<and> m ''break_even'' = Some break_even \<and> 0 \<le> break_even)
   \<and> (\<exists>m gross_margin net_margin.
       calculate_monthly_metrics 1000 2 80 10000 3000 100 6 300 = Inr m
       \<and> m ''gross_margin'' = Some gross_margin \<and> gross_margin < 0
       \<and> m ''net_margin'' = Some net_margin \<and> net_margin < 0)"
proof
  let ?orders = "monthly_traffic * (conversion_rate / 100)"
  let ?revenue = "?orders * average_basket"
  let ?fixed = "32 + 200 + 1.25 + marketing_budget"
  have orders: "0 \<le> ?orders"
    using assms by simp
  have revenue: "0 \<le> ?revenue"
    using orders assms(3) by (rule mult_nonneg_nonneg)
  have "0 \<le> purchase_price_ratio / 100"
    using assms by simp
  with revenue have purchase: "0 \<le> ?revenue * (purchase_price_ratio / 100)"
    by (rule mult_nonneg_nonneg)
  have shipping: "0 \<le> ?orders * shipping_cost"
    using orders assms(7) by (rule mult_nonneg_nonneg)
  have "0 \<le> ?revenue * 0.029"
    by (rule mult_nonneg_nonneg [OF revenue]) simp
  moreover have "0 \<le> ?orders * 0.30"
    by (rule mult_nonneg_nonneg [OF orders]) simp
  ultimately have fees: "0 \<le> ?revenue * 0.029 + ?orders * 0.30"
    by (rule add_nonneg_nonneg)
  have fixed: "0 \<le> ?fixed"
    using assms by simp
  have break_even: "0 \<le> (if g > 0 then ?fixed / (g / 100) else 0)" for g :: real
    using fixed by (simp del: divide_divide_eq_right)
  show "\<exists>m revenue purchase_cost shipping_total shopify_fees fixed_costs break_even.
       calculate_monthly_metrics monthly_traffic conversion_rate average_basket
         initial_capital initial_stock purchase_price_ratio shipping_cost marketing_budget = Inr m
       \<and> m ''revenue'' = Some revenue \<and> 0 \<le> revenue
       \<and> m ''purchase_cost'' = Some purchase_cost \<and> 0 \<le> purchase_cost
       \<and> m ''shipping_total'' = Some shipping_total \<and> 0 \<le> shipping_total
       \<and> m ''shopify_fees'' = Some shopify_fees \<and> 0 \<le> shopify_fees
       \<and> m ''fixed_costs'' = Some fixed_costs \<and> 0 \<le> fixed_costs
       \<and> m ''break_even'' = Some break_even \<and> 0 \<le> break_even"
    unfolding calculate_monthly_metrics_closed Let_def
    by (intro exI conjI)
      (rule refl revenue purchase shipping fees fixed break_even | simp only: dict_simps)+
next
  have "calculate_monthly_metrics 1000 2 80 10000 3000 100 6 300 =
    Inr (map_of [(''revenue'', 1600), (''orders'', 20), (''purchase_cost'', 1600),
     (''shipping_total'', 120), (''shopify_fees'', 52.4), (''fixed_costs'', 533.25),
     (''gross_margin'', - 172.4), (''net_margin'', - 705.65),
     (''gross_margin_rate'', - 10.775), (''marketing_ratio'', 18.75), (''break_even'', 0)])"
    (is "_ = Inr ?L")
    unfolding calculate_monthly_metrics_closed Let_def by simp
  moreover have "?L ''gross_margin'' = Some (- 172.4)" "?L ''net_margin'' = Some (- 705.65)"
    by (simp_all only: dict_simps)
  moreover have "- 172.4 < (0::real)" "- 705.65 < (0::real)"
    by simp_all
  ultimately show "\<exists>m gross_margin net_margin.
       calculate_monthly_metrics 1000 2 80 10000 3000 100 6 300 = Inr m
       \<and> m ''gross_margin'' = Some gross_margin \<and> gross_margin < 0
       \<and> m ''net_margin'' = Some net_margin \<and> net_margin < 0"
    by (intro exI [of _ ?L] exI [of _ "- 172.4"] exI [of _ "- 705.65"] conjI)
qed

theorem monthly_currency_nonnegative_witness:
  "(0::real) \<le> 1000 \<and> (0::real) \<le> 2 \<and> (0::real) \<le> 80 \<and> (0::real) \<le> 10000
   \<and> (0::real) \<le> 3000 \<and> (0::real) \<le> 40 \<and> (0::real) \<le> 6 \<and> (0::real) \<le> 300
   \<and> (\<exists>m revenue purchase_cost shipping_total shopify_fees fixed_costs break_even.
       calculate_monthly_metrics 1000 2 80 10000 3000 40 6 300 = Inr m
       \<and> m ''revenue'' = Some revenue \<and> 0 \<le> revenue
       \<and> m ''purchase_cost'' = Some purchase_cost \<and> 0 \<le> purchase_cost
       \<and> m ''shipping_total'' = Some shipping_total \<and> 0 \<le> shipping_total
       \<and> m ''shopify_fees'' = Some shopify_fees \<and> 0 \<le> shopify_fees
       \<and> m ''fixed_costs'' = Some fixed_costs \<and> 0 \<le> fixed_costs
       \<and> m ''break_even'' = Some break_even \<and> 0 \<le> break_even)"
proof -
  have h: "(0::real) \<le> 1000" "(0::real) \<le> 2" "(0::real) \<le> 80" "(0::real) \<le> 10000"
    "(0::real) \<le> 3000" "(0::real) \<le> 40" "(0::real) \<le> 6" "(0::real) \<le> 300"
    by simp_all
  from monthly_currency_nonnegative [OF h]
  have "\<exists>m revenue purchase_cost shipping_total shopify_fees fixed_costs break_even.
       calculate_monthly_metrics 1000 2 80 10000 3000 40 6 300 = Inr m
       \<and> m ''revenue'' = Some revenue \<and> 0 \<le> revenue
       \<and> m ''purchase_cost'' = Some purchase_cost \<and> 0 \<le> purchase_cost
       \<and> m ''shipping_total'' = Some shipping_total \<and> 0 \<le> shipping_total
       \<and> m ''shopify_fees'' = Some shopify_fees \<and> 0 \<le> shopify_fees
       \<and> m ''fixed_costs'' = Some fixed_costs \<and> 0 \<le> fixed_costs
       \<and> m ''break_even'' = Some break_even \<and> 0 \<le> break_even"
    by (rule conjunct1)
  with h show ?thesis
    by (intro conjI)
qed

end
